theory Spec2Isabelle
  imports Complex_Main "HOL-Library.AList"
begin

section \<open>Python values and errors\<close>

text \<open>
  The module \<^verbatim>\<open>specfit/specdata.py\<close> computes on NumPy floats. They are modelled
  as real numbers: rounding, overflow and the infinities are outside the model. NaN is
  modelled only where the source tests for it (the partition function samples, below).
  Every \<^verbatim>\<open>raise\<close> of the source, and every exception that the Python, NumPy and
  astropy operations it uses raise on the inputs modelled here, is a value of
  \<open>error\<close>; a function that can raise returns \<open>error + 'a\<close>.
\<close>

datatype error =
    ValueError string
  | KeyError string
  | IndexError string
  | TypeError string
  | AttributeError string

definition and_then :: "error + 'a \<Rightarrow> ('a \<Rightarrow> error + 'b) \<Rightarrow> error + 'b" where
  "and_then m f = (case m of Inl e \<Rightarrow> Inl e | Inr x \<Rightarrow> f x)"

section \<open>Module constants\<close>

text \<open>
  \<^verbatim>\<open>h = ac.h.cgs.value\<close>, \<^verbatim>\<open>c = ac.c.cgs.value\<close>, \<^verbatim>\<open>k_B = ac.k_B.cgs.value\<close>
  are read from astropy when the module is loaded. Their values are not part of the
  repository, so they are parameters of everything below.
\<close>

record phys =
  h :: real
  c :: real
  k_B :: real

section \<open>Unit conversion\<close>

definition wavenumber_to_Kelvin :: "'a phys_scheme \<Rightarrow> real \<Rightarrow> real" where
  "wavenumber_to_Kelvin K wavenumber = wavenumber * h K * c K / k_B K"

text \<open>
  \<^verbatim>\<open>logint_to_EinsteinA(logint_300, nu0, gup, Elow, Q_300)\<close>, statement by statement.
  The source rebinds \<^verbatim>\<open>Elow\<close> to its value in Kelvin; here that is \<open>Elow_K\<close>.
  \<^verbatim>\<open>10**logint_300\<close> is \<open>10 powr logint_300\<close>, \<^verbatim>\<open>nu0**3\<close> is \<open>nu0 ^ 3\<close>,
  \<^verbatim>\<open>1e6\<close> is \<open>1000000\<close>, \<^verbatim>\<open>2.40251e4\<close> is \<open>24025.1\<close> and
  \<^verbatim>\<open>1.16395e-20\<close> is \<open>1.16395 / 10 ^ 20\<close>.
\<close>

definition logint_to_EinsteinA ::
  "'a phys_scheme \<Rightarrow> real \<Rightarrow> real \<Rightarrow> real \<Rightarrow> real \<Rightarrow> real \<Rightarrow> real" where
  "logint_to_EinsteinA K logint_300 nu0 gup Elow Q_300 =
     (let Elow_K = wavenumber_to_Kelvin K Elow;
          Eup = Elow_K + h K * nu0 * 1000000 / k_B K;
          Smu2 = 24025.1 * 10 powr logint_300 * Q_300 / nu0
                   / (exp (- Elow_K / 300) - exp (- Eup / 300));
          A = 1.16395 / 10 ^ 20 * nu0 ^ 3 * Smu2 / gup
      in A)"

subsection \<open>The conversion as the specification words it\<close>

text \<open>
  The specification gives \<open>logIntensityToEinsteinA\<close> in four numbered steps over
  \<open>wavenumberToKelvin(w) = w \<cdot> h \<cdot> c / k_B\<close>. The four definitions below follow
  those sentences, one step each.
\<close>

definition spec_wavenumberToKelvin :: "'a phys_scheme \<Rightarrow> real \<Rightarrow> real" where
  "spec_wavenumberToKelvin K w = w * h K * c K / k_B K"

definition spec_Elow_K :: "'a phys_scheme \<Rightarrow> real \<Rightarrow> real" where
  "spec_Elow_K K ELow = spec_wavenumberToKelvin K ELow"

definition spec_Eup_K :: "'a phys_scheme \<Rightarrow> real \<Rightarrow> real \<Rightarrow> real" where
  "spec_Eup_K K nu0_MHz ELow = spec_Elow_K K ELow + h K * nu0_MHz * 1000000 / k_B K"

definition spec_Smu2 :: "'a phys_scheme \<Rightarrow> real \<Rightarrow> real \<Rightarrow> real \<Rightarrow> real \<Rightarrow> real" where
  "spec_Smu2 K logInt300 nu0_MHz ELow Q300 =
     24025.1 * 10 powr logInt300 * Q300 / nu0_MHz
       / (exp (- spec_Elow_K K ELow / 300) - exp (- spec_Eup_K K nu0_MHz ELow / 300))"

definition spec_A ::
  "'a phys_scheme \<Rightarrow> real \<Rightarrow> real \<Rightarrow> real \<Rightarrow> real \<Rightarrow> real \<Rightarrow> real" where
  "spec_A K logInt300 nu0_MHz gUp ELow Q300 =
     1.16395 / 10 ^ 20 * nu0_MHz ^ 3 * spec_Smu2 K logInt300 nu0_MHz ELow Q300 / gUp"

section \<open>External collaborators\<close>

text \<open>
  The species master tables are fetched by astroquery
  (\<^verbatim>\<open>JPL.get_species_table()\<close>, \<^verbatim>\<open>CDMS.get_species_table(use_cached)\<close>) and the
  cubic fit is SciPy's \<^verbatim>\<open>interp1d(T, Q, kind="cubic", fill_value="extrapolate")\<close>.
  None of them is code of the repository: they are parameters, collected in \<open>lib\<close>
  together with the physical constants.

  A master table is kept as its list of rows. Of the JPL table the source reads the
  columns \<^verbatim>\<open>TAG\<close>, \<^verbatim>\<open>NAME\<close>, \<^verbatim>\<open>NLINE\<close>, every column whose name contains
  \<^verbatim>\<open>QLOG\<close> (in column order) and the entry \<^verbatim>\<open>Temperature (K)\<close> of the metadata; of the
  CDMS table the columns \<^verbatim>\<open>tag\<close>, \<^verbatim>\<open>molecule\<close>, \<^verbatim>\<open>#lines\<close> and every column whose
  name contains \<^verbatim>\<open>lg\<close>. The temperature written inside the name of such a column
  (\<^verbatim>\<open>float(k.split("(")[-1].split(")")[0])\<close>) is kept already parsed, in
  \<open>cdms_lg_T\<close>. A cell \<open>None\<close> is a masked (missing) entry.
\<close>

record jpl_species_row =
  jpl_TAG :: int
  jpl_NAME :: string
  jpl_NLINE :: int
  jpl_QLOG :: "real option list"

record jpl_species_table =
  jpl_rows :: "jpl_species_row list"
  jpl_Temperature :: "real list"

record cdms_species_row =
  cdms_tag :: int
  cdms_molecule :: string
  cdms_nlines :: int
  cdms_lg :: "real option list"

record cdms_species_table =
  cdms_rows :: "cdms_species_row list"
  cdms_lg_T :: "real list"

record lib = phys +
  interp1d_cubic :: "real list \<Rightarrow> real list \<Rightarrow> error + (real \<Rightarrow> real)"
  JPL_get_species_table :: jpl_species_table
  CDMS_get_species_table :: "bool \<Rightarrow> cdms_species_table"

section \<open>PartitionFunction\<close>

text \<open>
  The samples \<^verbatim>\<open>Q\<close> of a partition function may hold NaN, which the class tests with
  \<^verbatim>\<open>np.isnan\<close>; the temperatures \<^verbatim>\<open>T\<close> are numbers.
\<close>

datatype npfloat = Val real | NaN

definition isnan :: "npfloat \<Rightarrow> bool" where
  "isnan q = (case q of NaN \<Rightarrow> True | Val v \<Rightarrow> False)"

record PartitionFunction =
  pf_species :: string
  pf_T :: "real list"
  pf_Q :: "npfloat list"
  pf_database :: "string option"
  pf_ntrans :: "int list option"
  pf_function :: "real \<Rightarrow> real"

text \<open>
  \<^verbatim>\<open>_get_function\<close>: \<^verbatim>\<open>T = self.T[~np.isnan(self.Q)]\<close>,
  \<^verbatim>\<open>Q = self.Q[~np.isnan(self.Q)]\<close>, then the cubic fit. Indexing with a boolean
  array of another length raises IndexError.
\<close>

definition get_function ::
  "'a lib_scheme \<Rightarrow> real list \<Rightarrow> npfloat list \<Rightarrow> error + (real \<Rightarrow> real)" where
  "get_function L Ts Qs =
     (if length Ts \<noteq> length Qs
      then Inl (IndexError ''boolean index did not match indexed array'')
      else interp1d_cubic L
             [t. (t, q) \<leftarrow> zip Ts Qs, \<not> isnan q]
             [v. Val v \<leftarrow> Qs])"

text \<open>\<^verbatim>\<open>PartitionFunction.__init__(species, T, Q, database, ntrans)\<close>.\<close>

definition PartitionFunction_init ::
  "'a lib_scheme \<Rightarrow> string \<Rightarrow> real list \<Rightarrow> npfloat list \<Rightarrow> string option \<Rightarrow> int list option
     \<Rightarrow> error + PartitionFunction" where
  "PartitionFunction_init L sp Ts Qs db nt =
     and_then (get_function L Ts Qs) (\<lambda>f.
       Inr \<lparr>pf_species = sp, pf_T = Ts, pf_Q = Qs, pf_database = db, pf_ntrans = nt,
            pf_function = f\<rparr>)"

text \<open>
  \<^verbatim>\<open>PartitionFunction.__call__(T, verbose=False)\<close>. The argument is a number or a
  NumPy array of numbers; the result is a float when the interpolated array has one
  element (\<^verbatim>\<open>val.size == 1\<close>) and the array otherwise. The printed lines are returned
  beside the value.

  \<^verbatim>\<open>np.nanmin\<close> and \<^verbatim>\<open>np.nanmax\<close> of an empty array raise ValueError. The two
  comparisons of an array argument are boolean arrays, and Python's \<^verbatim>\<open>or\<close> asks
  each operand for its truth value: NumPy gives it for an array of one element and
  raises ValueError for an array of two or more (for the empty array NumPy 2.2 and
  later raise too; the model follows them).
\<close>

datatype temperature = Scalar real | Array "real list"

datatype pfvalue = Float real | NDArray "real list"

definition nanmin :: "real list \<Rightarrow> error + real" where
  "nanmin xs =
     (if xs = [] then Inl (ValueError ''zero-size array to reduction operation fmin which has no identity'')
      else Inr (Min (set xs)))"

definition nanmax :: "real list \<Rightarrow> error + real" where
  "nanmax xs =
     (if xs = [] then Inl (ValueError ''zero-size array to reduction operation fmax which has no identity'')
      else Inr (Max (set xs)))"

definition truth_value :: "bool list \<Rightarrow> error + bool" where
  "truth_value bs =
     (case bs of
        [b] \<Rightarrow> Inr b
      | _ \<Rightarrow> Inl (ValueError ''The truth value of an array with more than one element is ambiguous''))"

fun compare_with :: "(real \<Rightarrow> real \<Rightarrow> bool) \<Rightarrow> temperature \<Rightarrow> real \<Rightarrow> error + bool" where
  "compare_with rel (Scalar t) x = Inr (rel t x)"
| "compare_with rel (Array ts) x = truth_value (map (\<lambda>t. rel t x) ts)"

definition outside_samples :: "real list \<Rightarrow> temperature \<Rightarrow> error + bool" where
  "outside_samples Ts T =
     and_then (nanmin Ts) (\<lambda>lo.
     and_then (compare_with (<) T lo) (\<lambda>below.
       if below then Inr True
       else and_then (nanmax Ts) (\<lambda>hi. compare_with (>) T hi)))"

definition extrapolation_warning :: string where
  "extrapolation_warning =
     ''Warning: Input temperature is smaller or larger than the original partition function data. Will be evaluated by extrapolation.''"

fun interpolated :: "(real \<Rightarrow> real) \<Rightarrow> temperature \<Rightarrow> pfvalue" where
  "interpolated f (Scalar t) = Float (f t)"
| "interpolated f (Array ts) = (case ts of [t] \<Rightarrow> Float (f t) | _ \<Rightarrow> NDArray (map f ts))"

definition PartitionFunction_call ::
  "PartitionFunction \<Rightarrow> temperature \<Rightarrow> bool \<Rightarrow> error + (pfvalue \<times> string list)" where
  "PartitionFunction_call pf T verbose =
     and_then
       (if verbose
        then and_then (outside_samples (pf_T pf) T) (\<lambda>outside.
               Inr (if outside then [extrapolation_warning] else []))
        else Inr [])
       (\<lambda>printed. Inr (interpolated (pf_function pf) T, printed))"

section \<open>Tables\<close>

text \<open>
  A raw response is an astropy \<^verbatim>\<open>Table\<close>: an ordered list of named columns and a
  dictionary of metadata. A column holds numbers or text; a cell \<open>None\<close> is a masked
  (missing) cell, and arithmetic on a column leaves masked cells masked. The display
  attributes of a column (\<^verbatim>\<open>unit\<close>, \<^verbatim>\<open>format\<close>) are not modelled, and the integer and
  float dtypes of NumPy are both \<open>NumCol\<close>. Of the metadata the source writes and reads
  three keys.
\<close>

datatype coldata = NumCol "real option list" | StrCol "string option list"

record table_meta =
  meta_Partition_Function :: "PartitionFunction option"
  meta_Species :: "string option"
  meta_Molecular_Weight :: "int option"

record table =
  columns :: "(string \<times> coldata) list"
  meta :: table_meta
  masked :: bool

fun collen :: "coldata \<Rightarrow> nat" where
  "collen (NumCol xs) = length xs"
| "collen (StrCol xs) = length xs"

fun mask_of :: "coldata \<Rightarrow> bool list" where
  "mask_of (NumCol xs) = map (\<lambda>x. x = None) xs"
| "mask_of (StrCol xs) = map (\<lambda>x. x = None) xs"

definition colnames :: "table \<Rightarrow> string list" where
  "colnames t = map fst (columns t)"

definition column :: "table \<Rightarrow> string \<Rightarrow> coldata option" where
  "column t name = map_of (columns t) name"

text \<open>\<^verbatim>\<open>len(table)\<close>: the number of rows.\<close>

definition len :: "table \<Rightarrow> nat" where
  "len t = (case columns t of [] \<Rightarrow> 0 | (name, d) # rest \<Rightarrow> collen d)"

text \<open>\<^verbatim>\<open>table[name]\<close>.\<close>

definition getitem :: "table \<Rightarrow> string \<Rightarrow> error + coldata" where
  "getitem t name = (case column t name of None \<Rightarrow> Inl (KeyError name) | Some d \<Rightarrow> Inr d)"

text \<open>
  \<^verbatim>\<open>table[name] = d\<close>: replaces the column of that name where it stands, or appends a
  new column; the length of \<open>d\<close> must be the number of rows.
\<close>

definition setitem :: "string \<Rightarrow> coldata \<Rightarrow> table \<Rightarrow> error + table" where
  "setitem name d t =
     (if columns t \<noteq> [] \<and> collen d \<noteq> len t
      then Inl (ValueError ''Inconsistent data column lengths'')
      else Inr (t\<lparr>columns := AList.update name d (columns t)\<rparr>))"

text \<open>
  \<^verbatim>\<open>table.remove_columns(names)\<close> raises KeyError when a name is not a column, before it
  removes any.
\<close>

definition remove_columns :: "string list \<Rightarrow> table \<Rightarrow> error + table" where
  "remove_columns names t =
     (case find (\<lambda>n. column t n = None) names of
        Some n \<Rightarrow> Inl (KeyError n)
      | None \<Rightarrow> Inr (t\<lparr>columns := filter (\<lambda>p. fst p \<notin> set names) (columns t)\<rparr>))"

definition remove_column :: "string \<Rightarrow> table \<Rightarrow> error + table" where
  "remove_column name t = remove_columns [name] t"

text \<open>
  \<^verbatim>\<open>table.rename_column(name, new_name)\<close>: KeyError when \<open>name\<close> is not a column or
  \<open>new_name\<close> already is one.
\<close>

definition rename_column :: "string \<Rightarrow> string \<Rightarrow> table \<Rightarrow> error + table" where
  "rename_column name new_name t =
     (if column t name = None then Inl (KeyError name)
      else if name = new_name then Inr t
      else if column t new_name \<noteq> None then Inl (KeyError new_name)
      else Inr (t\<lparr>columns := map (\<lambda>p. (if fst p = name then new_name else fst p, snd p)) (columns t)\<rparr>))"

text \<open>\<^verbatim>\<open>table.add_column(col, name=name, index=0)\<close>.\<close>

definition add_column :: "coldata \<Rightarrow> string \<Rightarrow> table \<Rightarrow> error + table" where
  "add_column d name t =
     (if columns t \<noteq> [] \<and> collen d \<noteq> len t
      then Inl (ValueError ''Inconsistent data column lengths'')
      else if column t name \<noteq> None then Inl (ValueError ''Duplicate column names'')
      else Inr (t\<lparr>columns := (name, d) # columns t\<rparr>))"

text \<open>
  \<^verbatim>\<open>table.mask is not None\<close>: the table is a masked table or has masked columns
  (\<open>masked\<close>), or some cell is masked. \<^verbatim>\<open>np.all(table.mask[col])\<close> holds of a column
  whose cells are all masked, and of every column of a table with no rows.
\<close>

definition has_mask :: "table \<Rightarrow> bool" where
  "has_mask t = (masked t \<or> list_ex (\<lambda>p. list_ex (\<lambda>b. b) (mask_of (snd p))) (columns t))"

definition fully_masked :: "coldata \<Rightarrow> bool" where
  "fully_masked d = list_all (\<lambda>b. b) (mask_of d)"

definition masked_columns :: "table \<Rightarrow> string list" where
  "masked_columns t =
     [col \<leftarrow> colnames t. (case column t col of None \<Rightarrow> False | Some d \<Rightarrow> fully_masked d)]"

definition remove_masked_columns :: "table \<Rightarrow> error + table" where
  "remove_masked_columns t =
     (if has_mask t then remove_columns (masked_columns t) t else Inr t)"

subsection \<open>Column arithmetic\<close>

text \<open>The numbers of a column in an arithmetic expression; text raises TypeError.\<close>

definition numeric :: "coldata \<Rightarrow> error + real option list" where
  "numeric d =
     (case d of
        NumCol xs \<Rightarrow> Inr xs
      | StrCol xs \<Rightarrow> Inl (TypeError ''ufunc did not contain a loop with signature matching types''))"

definition scaled :: "real \<Rightarrow> real option list \<Rightarrow> real option list" where
  "scaled k xs = map (map_option (\<lambda>x. x * k)) xs"

text \<open>\<^verbatim>\<open>table[name] *= k\<close>.\<close>

definition imul_column :: "string \<Rightarrow> real \<Rightarrow> table \<Rightarrow> error + table" where
  "imul_column name k t =
     and_then (getitem t name) (\<lambda>d.
     and_then (numeric d) (\<lambda>xs.
       setitem name (NumCol (scaled k xs)) t))"

definition apply2 :: "(real \<Rightarrow> real \<Rightarrow> real) \<Rightarrow> real option \<Rightarrow> real option \<Rightarrow> real option" where
  "apply2 f a1 a2 = (case (a1, a2) of (Some x, Some y) \<Rightarrow> Some (f x y) | _ \<Rightarrow> None)"

definition apply4 ::
  "(real \<Rightarrow> real \<Rightarrow> real \<Rightarrow> real \<Rightarrow> real)
     \<Rightarrow> real option \<Rightarrow> real option \<Rightarrow> real option \<Rightarrow> real option \<Rightarrow> real option" where
  "apply4 f a1 a2 a3 a4 =
     (case (a1, a2, a3, a4) of
        (Some w, Some x, Some y, Some z) \<Rightarrow> Some (f w x y z)
      | _ \<Rightarrow> None)"

text \<open>
  \<^verbatim>\<open>int(np.unique(col)[0])\<close>: the least value of the column, truncated towards zero;
  IndexError when there is none. A column of text is rejected here (Python would try to
  read digits from it; both catalogs give numbers in the columns concerned).
\<close>

definition py_int :: "real \<Rightarrow> int" where
  "py_int x = (if 0 \<le> x then \<lfloor>x\<rfloor> else \<lceil>x\<rceil>)"

definition unique_first :: "coldata \<Rightarrow> error + real" where
  "unique_first d =
     (case d of
        StrCol xs \<Rightarrow> Inl (TypeError ''text where a number is expected'')
      | NumCol xs \<Rightarrow>
          (case [x. Some x \<leftarrow> xs] of
             [] \<Rightarrow> Inl (IndexError ''index 0 is out of bounds for axis 0 with size 0'')
           | v # vs \<Rightarrow> Inr (Min (set (v # vs)))))"

text \<open>\<^verbatim>\<open>list.index(x)\<close>: the first position of \<open>x\<close>.\<close>

fun index_of :: "'a list \<Rightarrow> 'a \<Rightarrow> nat option" where
  "index_of [] y = None"
| "index_of (x # xs) y = (if x = y then Some 0 else map_option Suc (index_of xs y))"

section \<open>Reading the partition function from a master table\<close>

text \<open>
  \<^verbatim>\<open>float(x) or np.nan\<close>: a masked cell converts to NaN, and a zero is replaced by
  NaN. \<^verbatim>\<open>10 ** nan\<close> is NaN.
\<close>

definition float_or_nan :: "real option \<Rightarrow> npfloat" where
  "float_or_nan x = (case x of None \<Rightarrow> NaN | Some v \<Rightarrow> (if v = 0 then NaN else Val v))"

definition pow10 :: "npfloat \<Rightarrow> npfloat" where
  "pow10 q = (case q of NaN \<Rightarrow> NaN | Val v \<Rightarrow> Val (10 powr v))"

text \<open>
  \<^verbatim>\<open>read_JPL_partition_function(species_table, tag)\<close>. \<^verbatim>\<open>row\<close> holds the rows whose
  \<^verbatim>\<open>TAG\<close> is \<open>tag\<close>; \<^verbatim>\<open>float(row[k])\<close> needs exactly one such row (TypeError
  otherwise), for every \<^verbatim>\<open>QLOG\<close> column \<open>k\<close>. Temperatures and values are reversed.
\<close>

definition read_JPL_partition_function ::
  "jpl_species_table \<Rightarrow> int \<Rightarrow> error + (real list \<times> npfloat list)" where
  "read_JPL_partition_function species_table tag =
     (let row = filter (\<lambda>r. jpl_TAG r = tag) (jpl_rows species_table);
          Ts = rev (jpl_Temperature species_table)
      in and_then
           (case row of
              [r] \<Rightarrow> Inr (map float_or_nan (jpl_QLOG r))
            | _ \<Rightarrow>
                (if list_all (\<lambda>r. jpl_QLOG r = []) (jpl_rows species_table) then Inr []
                 else Inl (TypeError ''only length-1 arrays can be converted to Python scalars'')))
           (\<lambda>qs. Inr (Ts, map pow10 (rev qs))))"

text \<open>
  \<^verbatim>\<open>read_CDMS_partition_function(species_table, tag)\<close>: \<^verbatim>\<open>float(row[k][0])\<close> reads
  the first row whose \<^verbatim>\<open>tag\<close> is \<open>tag\<close>, for every \<^verbatim>\<open>lg\<close> column \<open>k\<close>.
\<close>

definition read_CDMS_partition_function ::
  "cdms_species_table \<Rightarrow> int \<Rightarrow> error + (real list \<times> npfloat list)" where
  "read_CDMS_partition_function species_table tag =
     (let row = filter (\<lambda>r. cdms_tag r = tag) (cdms_rows species_table);
          Ts = cdms_lg_T species_table
      in and_then
           (case row of
              r # rest \<Rightarrow> Inr (map float_or_nan (cdms_lg r))
            | [] \<Rightarrow>
                (if Ts = [] then Inr []
                 else Inl (IndexError ''index 0 is out of bounds for axis 0 with size 0'')))
           (\<lambda>qs. Inr (Ts, map pow10 qs)))"

section \<open>The format normalizers\<close>

subsection \<open>Steps shared by both formats\<close>

text \<open>
  Step 3-1 of both normalizers: \<^verbatim>\<open>FREQ\<close> becomes \<^verbatim>\<open>Frequency\<close> and is multiplied by
  \<^verbatim>\<open>1e-3\<close>; unless \<^verbatim>\<open>nofreqerr\<close>, \<^verbatim>\<open>ERR\<close> becomes \<^verbatim>\<open>Frequency Error\<close> and is
  multiplied by \<^verbatim>\<open>1e-3\<close>.
\<close>

definition frequency_to_GHz :: "bool \<Rightarrow> table \<Rightarrow> error + table" where
  "frequency_to_GHz nofreqerr t =
     and_then (rename_column ''FREQ'' ''Frequency'' t) (\<lambda>t1.
     and_then (imul_column ''Frequency'' 0.001 t1) (\<lambda>t2.
       if \<not> nofreqerr
       then and_then (rename_column ''ERR'' ''Frequency Error'' t2)
              (imul_column ''Frequency Error'' 0.001)
       else Inr t2))"

text \<open>
  Step 3-3 of both normalizers: \<^verbatim>\<open>ELO\<close> becomes \<^verbatim>\<open>E_up\<close>, set to
  \<^verbatim>\<open>wavenumber_to_Kelvin(E_up) + h * Frequency * 1e9 / k_B\<close>.
\<close>

definition E_up_of :: "'a phys_scheme \<Rightarrow> real \<Rightarrow> real \<Rightarrow> real" where
  "E_up_of K Elow Frequency = wavenumber_to_Kelvin K Elow + h K * Frequency * 1000000000 / k_B K"

definition E_low_to_E_up :: "'a phys_scheme \<Rightarrow> table \<Rightarrow> error + table" where
  "E_low_to_E_up K t =
     and_then (rename_column ''ELO'' ''E_up'' t) (\<lambda>t1.
     and_then (getitem t1 ''E_up'') (\<lambda>d.
     and_then (numeric d) (\<lambda>es.
     and_then (getitem t1 ''Frequency'') (\<lambda>d'.
     and_then (numeric d') (\<lambda>fs.
       if length es \<noteq> length fs
       then Inl (ValueError ''operands could not be broadcast together'')
       else setitem ''E_up'' (NumCol (map (\<lambda>(e, f). apply2 (E_up_of K) e f) (zip es fs))) t1)))))"

subsection \<open>The JPL format\<close>

text \<open>\<^verbatim>\<open>tag = abs(int(np.unique(self.table["TAG"])[0]))\<close>.\<close>

definition JPL_tag :: "table \<Rightarrow> error + int" where
  "JPL_tag t =
     and_then (getitem t ''TAG'') (\<lambda>d.
     and_then (unique_first d) (\<lambda>v. Inr (abs (py_int v))))"

text \<open>
  The by-tag resolver: \<^verbatim>\<open>species_table["TAG"].tolist().index(tag)\<close> inside
  \<^verbatim>\<open>try\<close>, the \<^verbatim>\<open>ValueError\<close> of a tag that is not in the list re-raised with the
  message of the source (shortened here to its fixed part), then
  \<^verbatim>\<open>species_table["NAME"][idx]\<close>.
\<close>

definition JPL_species_of_tag :: "jpl_species_table \<Rightarrow> int \<Rightarrow> error + string" where
  "JPL_species_of_tag species_table tag =
     (case index_of (map jpl_TAG (jpl_rows species_table)) tag of
        None \<Rightarrow> Inl (ValueError ''No entries found for species tag. Please specify species argument.'')
      | Some idx \<Rightarrow> Inr (jpl_NAME (jpl_rows species_table ! idx)))"

text \<open>
  The branch \<^verbatim>\<open>if species is None\<close> of \<^verbatim>\<open>format_JPL\<close>: the species name and the
  partition function that go into the metadata.
\<close>

definition JPL_resolve ::
  "'a lib_scheme \<Rightarrow> PartitionFunction option \<Rightarrow> table \<Rightarrow> error + (string \<times> PartitionFunction)" where
  "JPL_resolve L pf t =
     and_then (JPL_tag t) (\<lambda>tag.
     let species_table = JPL_get_species_table L in
     and_then (JPL_species_of_tag species_table tag) (\<lambda>species.
       case pf of
         None \<Rightarrow>
           and_then (read_JPL_partition_function species_table tag) (\<lambda>(Ts, Qs).
           and_then (PartitionFunction_init L species Ts Qs None
                       (Some (map jpl_NLINE (jpl_rows species_table)))) (\<lambda>p.
             Inr (species, p)))
       | Some p \<Rightarrow> Inr (species, p)))"

text \<open>
  \<^verbatim>\<open>logint_to_EinsteinA\<close> applied to columns: row by row (\<open>A_ul_rows\<close>), with the
  one number \<open>Q_300\<close>; a row with a masked operand gives a masked result. The columns
  are read in the order in which the function uses them.
\<close>

definition A_ul_rows ::
  "'a phys_scheme \<Rightarrow> real \<Rightarrow> real option list \<Rightarrow> real option list \<Rightarrow> real option list
     \<Rightarrow> real option list \<Rightarrow> real option list" where
  "A_ul_rows K Q_300 ls ns gs es =
     map (\<lambda>(l, n, g, e). apply4 (\<lambda>l n g e. logint_to_EinsteinA K l n g e Q_300) l n g e)
       (zip ls (zip ns (zip gs es)))"

definition logint_to_EinsteinA_columns ::
  "'a phys_scheme \<Rightarrow> coldata \<Rightarrow> coldata \<Rightarrow> coldata \<Rightarrow> coldata \<Rightarrow> real \<Rightarrow> error + coldata" where
  "logint_to_EinsteinA_columns K logint_300 nu0 gup Elow Q_300 =
     and_then (numeric Elow) (\<lambda>es.
     and_then (numeric nu0) (\<lambda>ns.
     and_then (numeric logint_300) (\<lambda>ls.
     and_then (numeric gup) (\<lambda>gs.
       if length ls = length ns \<and> length ns = length gs \<and> length gs = length es
       then Inr (NumCol (A_ul_rows K Q_300 ls ns gs es))
       else Inl (ValueError ''operands could not be broadcast together'')))))"

text \<open>
  Step 3-2 of \<^verbatim>\<open>format_JPL\<close>. The partition function is called with the number
  \<^verbatim>\<open>300\<close>, which gives a float (an array never comes back from a scalar argument:
  lemma \<open>PartitionFunction_call_scalar\<close>).
\<close>

definition A_ul_from_LGINT :: "'a phys_scheme \<Rightarrow> table \<Rightarrow> error + table" where
  "A_ul_from_LGINT K t =
     and_then (rename_column ''LGINT'' ''A_ul'' t) (\<lambda>t1.
     and_then (getitem t1 ''A_ul'') (\<lambda>logint_300.
     and_then (getitem t1 ''Frequency'') (\<lambda>d.
     and_then (numeric d) (\<lambda>fs.
     and_then (getitem t1 ''GUP'') (\<lambda>gup.
     and_then (getitem t1 ''ELO'') (\<lambda>Elow.
     and_then (case meta_Partition_Function (meta t1) of
                 None \<Rightarrow> Inl (KeyError ''Partition Function'')
               | Some pf \<Rightarrow> PartitionFunction_call pf (Scalar 300) False) (\<lambda>(v, printed).
       case v of
         NDArray qs \<Rightarrow> Inl (ValueError ''operands could not be broadcast together'')
       | Float Q_300 \<Rightarrow>
           and_then (logint_to_EinsteinA_columns K logint_300 (NumCol (scaled 1000 fs)) gup Elow Q_300)
             (\<lambda>A. setitem ''A_ul'' A t1))))))))"

text \<open>
  Step 2 of \<^verbatim>\<open>format_JPL\<close>, both branches of \<^verbatim>\<open>if species is None\<close>: the
  species name and the partition function that go into the metadata. A species given
  without a partition function raises ValueError.
\<close>

definition JPL_species_and_pf ::
  "'a lib_scheme \<Rightarrow> string option \<Rightarrow> PartitionFunction option \<Rightarrow> table
     \<Rightarrow> error + (string \<times> PartitionFunction)" where
  "JPL_species_and_pf L species pf t =
     (case species of
        None \<Rightarrow> JPL_resolve L pf t
      | Some sp \<Rightarrow>
          (case pf of
             None \<Rightarrow> Inl (ValueError ''Please provide parition function (pf) which is needed to calculate A coeff.'')
           | Some p \<Rightarrow> Inr (sp, p)))"

text \<open>
  \<^verbatim>\<open>format_JPL(response, species, nofreqerr, pf)\<close> begins with
  \<^verbatim>\<open>self.table = response\<close>: from then on \<^verbatim>\<open>self.table\<close> and the caller's
  \<^verbatim>\<open>response\<close> are one object, and every later statement but the last changes that
  object. \<open>format_JPL_steps\<close> is the effect of those statements on the value of the
  object; it also gives the species name, which the source keeps in \<^verbatim>\<open>self.species\<close>.
\<close>

definition format_JPL_steps ::
  "'a lib_scheme \<Rightarrow> string option \<Rightarrow> bool \<Rightarrow> PartitionFunction option \<Rightarrow> table
     \<Rightarrow> error + (table \<times> string)" where
  "format_JPL_steps L species nofreqerr pf response =
     and_then (remove_masked_columns response) (\<lambda>t1.
     and_then (JPL_species_and_pf L species pf t1) (\<lambda>(sp, p).
     and_then (remove_columns [''DR'', ''TAG'', ''QNFMT'']
                 (t1\<lparr>meta := (meta t1)\<lparr>meta_Partition_Function := Some p, meta_Species := Some sp\<rparr>\<rparr>)) (\<lambda>t2.
     and_then (if nofreqerr then remove_column ''ERR'' t2 else Inr t2) (\<lambda>t3.
     and_then (add_column (StrCol (replicate (len t3) (Some sp))) ''Species'' t3) (\<lambda>t4.
     and_then (frequency_to_GHz nofreqerr t4) (\<lambda>t5.
     and_then (A_ul_from_LGINT L t5) (\<lambda>t6.
     and_then (E_low_to_E_up L t6) (\<lambda>t7.
     and_then (rename_column ''GUP'' ''g_up'' t7) (\<lambda>t8.
       Inr (t8, sp))))))))))"

subsection \<open>The CDMS format\<close>

text \<open>
  \<^verbatim>\<open>self.molweight = int(np.unique(self.table["MOLWT"])[0])\<close> and
  \<^verbatim>\<open>tag = int(self.molweight * 1e3 + abs(int(np.unique(self.table["TAG"])[0])))\<close>.
\<close>

definition CDMS_molweight :: "table \<Rightarrow> error + int" where
  "CDMS_molweight t =
     and_then (getitem t ''MOLWT'') (\<lambda>d.
     and_then (unique_first d) (\<lambda>v. Inr (py_int v)))"

definition CDMS_tag :: "int \<Rightarrow> table \<Rightarrow> error + int" where
  "CDMS_tag molweight t =
     and_then (getitem t ''TAG'') (\<lambda>d.
     and_then (unique_first d) (\<lambda>v.
       Inr (py_int (real_of_int molweight * 1000 + real_of_int (abs (py_int v))))))"

text \<open>
  The by-composite-key resolver: \<^verbatim>\<open>self.species_table["tag"].tolist().index(tag)\<close>,
  whose \<^verbatim>\<open>ValueError\<close> is not caught, then \<^verbatim>\<open>self.species_table["molecule"][idx]\<close>.
\<close>

definition CDMS_species_of_tag :: "cdms_species_table \<Rightarrow> int \<Rightarrow> error + string" where
  "CDMS_species_of_tag species_table tag =
     (case index_of (map cdms_tag (cdms_rows species_table)) tag of
        None \<Rightarrow> Inl (ValueError ''x is not in list'')
      | Some idx \<Rightarrow> Inr (cdms_molecule (cdms_rows species_table ! idx)))"

text \<open>Step 3-2 of \<^verbatim>\<open>format_CDMS\<close>: \<^verbatim>\<open>LGAIJ\<close> becomes \<^verbatim>\<open>A_ul\<close>, set to \<^verbatim>\<open>10 ** A_ul\<close>.\<close>

definition A_ul_from_LGAIJ :: "table \<Rightarrow> error + table" where
  "A_ul_from_LGAIJ t =
     and_then (rename_column ''LGAIJ'' ''A_ul'' t) (\<lambda>t1.
     and_then (getitem t1 ''A_ul'') (\<lambda>d.
     and_then (numeric d) (\<lambda>ls.
       setitem ''A_ul'' (NumCol (map (map_option (\<lambda>logA. 10 powr logA)) ls)) t1)))"

text \<open>
  Step 2 of \<^verbatim>\<open>format_CDMS\<close>: the molecular weight, the species table, the species
  name and the partition function built from the table.
\<close>

definition CDMS_species_and_pf ::
  "'a lib_scheme \<Rightarrow> bool \<Rightarrow> table
     \<Rightarrow> error + (int \<times> cdms_species_table \<times> string \<times> PartitionFunction)" where
  "CDMS_species_and_pf L use_cached t =
     and_then (CDMS_molweight t) (\<lambda>molweight.
     and_then (CDMS_tag molweight t) (\<lambda>tag.
     let species_table = CDMS_get_species_table L use_cached in
     and_then (CDMS_species_of_tag species_table tag) (\<lambda>species.
     and_then (read_CDMS_partition_function species_table tag) (\<lambda>(Ts, Qs).
     and_then (PartitionFunction_init L species Ts Qs None
                 (Some (map cdms_nlines (cdms_rows species_table)))) (\<lambda>p.
       Inr (molweight, species_table, species, p))))))"

text \<open>
  \<^verbatim>\<open>format_CDMS(response, use_cached, nofreqerr)\<close>, as \<open>format_JPL_steps\<close>: the effect
  on the one table object, with the values the source keeps in \<^verbatim>\<open>self.species\<close>,
  \<^verbatim>\<open>self.molweight\<close> and \<^verbatim>\<open>self.species_table\<close>.
\<close>

definition format_CDMS_steps ::
  "'a lib_scheme \<Rightarrow> bool \<Rightarrow> bool \<Rightarrow> table \<Rightarrow> error + (table \<times> string \<times> int \<times> cdms_species_table)" where
  "format_CDMS_steps L use_cached nofreqerr response =
     and_then (remove_masked_columns response) (\<lambda>t1.
     and_then (CDMS_species_and_pf L use_cached t1) (\<lambda>(molweight, species_table, species, p).
     and_then (remove_columns [''DR'', ''TAG'', ''QNFMT'', ''MOLWT'', ''Lab'']
                 (t1\<lparr>meta := (meta t1)\<lparr>meta_Species := Some species,
                                        meta_Molecular_Weight := Some molweight,
                                        meta_Partition_Function := Some p\<rparr>\<rparr>)) (\<lambda>t2.
     and_then (if nofreqerr then remove_column ''ERR'' t2 else Inr t2) (\<lambda>t3.
     and_then (getitem t3 ''name'') (\<lambda>d.
     and_then (add_column d ''Species'' t3) (\<lambda>t4.
     and_then (remove_column ''name'' t4) (\<lambda>t5.
     and_then (frequency_to_GHz nofreqerr t5) (\<lambda>t6.
     and_then (A_ul_from_LGAIJ t6) (\<lambda>t7.
     and_then (E_low_to_E_up L t7) (\<lambda>t8.
     and_then (rename_column ''GUP'' ''g_up'' t8) (\<lambda>t9.
       Inr (t9, species, molweight, species_table))))))))))))"

section \<open>SpectroscopicData\<close>

text \<open>
  Tables are objects: \<open>heap\<close> gives the value of the table at each reference. The
  attributes of the \<^verbatim>\<open>SpectroscopicData\<close> object are the \<open>self_\<close> fields (\<open>None\<close>: not
  set yet), and \<open>stdout\<close> collects what \<^verbatim>\<open>print\<close> writes. A method returns the state
  it leaves when it returns normally; the state left behind by a \<^verbatim>\<open>raise\<close> is not
  modelled.
\<close>

record state =
  heap :: "nat \<Rightarrow> table"
  stdout :: "string list"
  self_table :: "nat option"
  self_species :: "string option"
  self_molweight :: "int option"
  self_species_table :: "cdms_species_table option"
  self_mu :: "int option"
  self_Q :: "PartitionFunction option"
  self_nu0 :: "real option list option"
  self_Aul :: "coldata option"
  self_gup :: "coldata option"
  self_Eup :: "coldata option"

text \<open>\<^verbatim>\<open>_set_quantities\<close>.\<close>

definition set_quantities :: "state \<Rightarrow> error + state" where
  "set_quantities s =
     (case self_table s of
        None \<Rightarrow> Inl (AttributeError ''table'')
      | Some r \<Rightarrow>
          (let t = heap s r;
               s1 = (case meta_Molecular_Weight (meta t) of
                       None \<Rightarrow> s
                     | Some w \<Rightarrow> s\<lparr>self_mu := Some w\<rparr>)
           in case meta_Partition_Function (meta t) of
                None \<Rightarrow> Inl (KeyError ''Partition Function'')
              | Some p \<Rightarrow>
                  and_then (getitem t ''Frequency'') (\<lambda>d.
                  and_then (numeric d) (\<lambda>fs.
                  and_then (getitem t ''A_ul'') (\<lambda>A.
                  and_then (getitem t ''g_up'') (\<lambda>g.
                  and_then (getitem t ''E_up'') (\<lambda>E.
                    Inr (s1\<lparr>self_Q := Some p,
                            self_nu0 := Some (scaled 1000000000 fs),
                            self_Aul := Some A,
                            self_gup := Some g,
                            self_Eup := Some E\<rparr>))))))))"

text \<open>
  \<^verbatim>\<open>format_JPL\<close> and \<^verbatim>\<open>format_CDMS\<close>: \<^verbatim>\<open>self.table = response\<close> stores the
  caller's reference (no copy is made), the steps change the table at that reference,
  and \<^verbatim>\<open>_set_quantities\<close> reads it.
\<close>

definition format_JPL ::
  "'a lib_scheme \<Rightarrow> nat \<Rightarrow> string option \<Rightarrow> bool \<Rightarrow> PartitionFunction option \<Rightarrow> state
     \<Rightarrow> error + state" where
  "format_JPL L response species nofreqerr pf s =
     and_then (format_JPL_steps L species nofreqerr pf (heap s response)) (\<lambda>(t, sp).
       set_quantities
         (s\<lparr>self_table := Some response,
            heap := (heap s)(response := t),
            self_species := Some sp\<rparr>))"

definition format_CDMS :: "'a lib_scheme \<Rightarrow> nat \<Rightarrow> bool \<Rightarrow> bool \<Rightarrow> state \<Rightarrow> error + state" where
  "format_CDMS L response use_cached nofreqerr s =
     and_then (format_CDMS_steps L use_cached nofreqerr (heap s response))
       (\<lambda>(t, sp, molweight, species_table).
          set_quantities
            (s\<lparr>self_table := Some response,
               heap := (heap s)(response := t),
               self_molweight := Some molweight,
               self_species_table := Some species_table,
               self_species := Some sp\<rparr>))"





text \<open>The column names that \<^verbatim>\<open>parse_datafile\<close> gives the reader, per format.\<close>

definition JPL_file_names :: "string list" where
  "JPL_file_names =
     [''FREQ'', ''ERR'', ''LGINT'', ''DR'', ''ELO'', ''GUP'', ''TAG'', ''QNFMT'',
      ''QN'' @ [CHR 0x27], ''QN'' @ [CHR 0x22]]"

definition CDMS_file_names :: "string list" where
  "CDMS_file_names =
     [''FREQ'', ''ERR'', ''LGINT'', ''DR'', ''ELO'', ''GUP'', ''MOLWT'', ''TAG'', ''QNFMT'',
      ''Ju'', ''Ku'', ''vu'', ''F1u'', ''F2u'', ''F3u'', ''Jl'', ''Kl'', ''vl'', ''F1l'', ''F2l'', ''F3l'',
      ''name'']"

section \<open>Notions used in the statements\<close>



section \<open>Example data\<close>

text \<open>
  Concrete inputs on which the model is evaluated below. \<open>example_interp1d\<close> is a
  stand-in for the cubic fit: like SciPy's \<^verbatim>\<open>interp1d\<close> with \<^verbatim>\<open>kind="cubic"\<close> it
  raises ValueError for fewer than four points; its interpolant is the straight line
  through the first and the last sample. The constants are the CODATA 2018 values in
  cgs units; the master tables hold the catalog entries of carbon monoxide.
\<close>

definition example_interp1d :: "real list \<Rightarrow> real list \<Rightarrow> error + (real \<Rightarrow> real)" where
  "example_interp1d xs ys =
     (if length xs < 4 then Inl (ValueError ''x and y arrays must have at least 4 entries'')
      else Inr (\<lambda>t. hd ys + (t - hd xs) * (last ys - hd ys) / (last xs - hd xs)))"

definition example_JPL_species_table :: jpl_species_table where
  "example_JPL_species_table =
     \<lparr>jpl_rows =
        [\<lparr>jpl_TAG = 18003, jpl_NAME = ''H2O'', jpl_NLINE = 1376,
          jpl_QLOG = [Some 2.2507, Some 2.0645, Some 1.8008, Some 1.3529, Some 0.9145, Some 0.5120, Some 0.2449]\<rparr>,
         \<lparr>jpl_TAG = 28001, jpl_NAME = ''CO'', jpl_NLINE = 91,
          jpl_QLOG = [Some 2.0369, Some 1.9123, Some 1.7370, Some 1.4386, Some 1.1429, Some 0.8526, Some 0.5733]\<rparr>],
      jpl_Temperature = [300, 225, 150, 75, 37.5, 18.75, 9.375]\<rparr>"

definition example_CDMS_species_table :: cdms_species_table where
  "example_CDMS_species_table =
     \<lparr>cdms_rows =
        [\<lparr>cdms_tag = 28503, cdms_molecule = ''CO, v=0'', cdms_nlines = 99,
          cdms_lg = [None, Some 2.2584, Some 2.0369, Some 1.9123, Some 1.7370, Some 1.4386,
                     Some 1.1429, Some 0.8526, Some 0.5733, Some 0.3389, Some 0.1478]\<rparr>],
      cdms_lg_T = [1000, 500, 300, 225, 150, 75, 37.5, 18.75, 9.375, 5, 2.725]\<rparr>"

definition example_lib :: lib where
  "example_lib =
     \<lparr>h = 6.62607015 / 10 ^ 27, c = 29979245800, k_B = 1.380649 / 10 ^ 16,
      interp1d_cubic = example_interp1d,
      JPL_get_species_table = example_JPL_species_table,
      CDMS_get_species_table = (\<lambda>use_cached. example_CDMS_species_table)\<rparr>"


text \<open>The same with master tables that hold water only.\<close>

definition sparse_lib :: lib where
  "sparse_lib =
     example_lib\<lparr>JPL_get_species_table :=
                   \<lparr>jpl_rows = [\<lparr>jpl_TAG = 18003, jpl_NAME = ''H2O'', jpl_NLINE = 1376, jpl_QLOG = []\<rparr>],
                    jpl_Temperature = []\<rparr>,
                 CDMS_get_species_table :=
                   (\<lambda>use_cached. \<lparr>cdms_rows = [\<lparr>cdms_tag = 18505, cdms_molecule = ''H2O'', cdms_nlines = 1, cdms_lg = []\<rparr>],
                                  cdms_lg_T = []\<rparr>)\<rparr>"

definition no_meta :: table_meta where
  "no_meta = \<lparr>meta_Partition_Function = None, meta_Species = None, meta_Molecular_Weight = None\<rparr>"

text \<open>Samples of a partition function at the seven temperatures of the JPL catalog.\<close>

definition example_T :: "real list" where
  "example_T = [9.375, 18.75, 37.5, 75, 150, 225, 300]"

definition example_Q :: "npfloat list" where
  "example_Q = [Val 3.7, Val 7.1, Val 13.9, Val 27.5, Val 54.6, Val 81.7, Val 108.9]"

text \<open>Two lines of carbon monoxide as the JPL catalog gives them, and as CDMS does.\<close>

definition example_JPL_response :: table where
  "example_JPL_response =
     \<lparr>columns =
        [(''FREQ'', NumCol [Some 115271.2018, Some 230538.0000]),
         (''ERR'', NumCol [Some 0.0005, Some 0.0005]),
         (''LGINT'', NumCol [Some (- 5.0105), Some (- 4.1197)]),
         (''DR'', NumCol [Some 2, Some 2]),
         (''ELO'', NumCol [Some 0, Some 3.8450]),
         (''GUP'', NumCol [Some 3, Some 5]),
         (''TAG'', NumCol [Some (- 28001), Some (- 28001)]),
         (''QNFMT'', NumCol [Some 101, Some 101]),
         (''QN'' @ [CHR 0x27], StrCol [Some ''1'', Some ''2'']),
         (''QN'' @ [CHR 0x22], StrCol [Some ''0'', Some ''1''])],
      meta = no_meta, masked = False\<rparr>"

definition example_CDMS_response :: table where
  "example_CDMS_response =
     \<lparr>columns =
        [(''FREQ'', NumCol [Some 115271.2018, Some 230538.0000]),
         (''ERR'', NumCol [Some 0.0005, Some 0.0005]),
         (''LGAIJ'', NumCol [Some (- 7.1425), Some (- 6.1605)]),
         (''DR'', NumCol [Some 2, Some 2]),
         (''ELO'', NumCol [Some 0, Some 3.8450]),
         (''GUP'', NumCol [Some 3, Some 5]),
         (''MOLWT'', NumCol [Some 28, Some 28]),
         (''TAG'', NumCol [Some (- 503), Some (- 503)]),
         (''QNFMT'', NumCol [Some 101, Some 101]),
         (''Ju'', NumCol [Some 1, Some 2]),
         (''Jl'', NumCol [Some 0, Some 1]),
         (''name'', StrCol [Some ''CO, v=0'', Some ''CO, v=0'']),
         (''Lab'', StrCol [Some ''True'', Some ''True''])],
      meta = no_meta, masked = False\<rparr>"

text \<open>
  One line of carbon monoxide read from a CDMS catalog file: the columns are those that
  \<^verbatim>\<open>parse_datafile\<close> names, and the quantum numbers that the line does not have are
  masked.
\<close>

definition example_CDMS_file_response :: table where
  "example_CDMS_file_response =
     \<lparr>columns =
        [(''FREQ'', NumCol [Some 115271.2018]), (''ERR'', NumCol [Some 0.0005]),
         (''LGINT'', NumCol [Some (- 7.1425)]), (''DR'', NumCol [Some 2]),
         (''ELO'', NumCol [Some 0]), (''GUP'', NumCol [Some 3]),
         (''MOLWT'', NumCol [Some 28]), (''TAG'', NumCol [Some (- 503)]),
         (''QNFMT'', NumCol [Some 101]),
         (''Ju'', NumCol [Some 1]), (''Ku'', NumCol [None]), (''vu'', NumCol [None]),
         (''F1u'', NumCol [None]), (''F2u'', NumCol [None]), (''F3u'', NumCol [None]),
         (''Jl'', NumCol [Some 0]), (''Kl'', NumCol [None]), (''vl'', NumCol [None]),
         (''F1l'', NumCol [None]), (''F2l'', NumCol [None]), (''F3l'', NumCol [None]),
         (''name'', StrCol [Some ''CO, v=0''])],
      meta = no_meta, masked = False\<rparr>"


text \<open>A state in which nothing is set yet, with one table on the heap.\<close>

definition initial_state :: "table \<Rightarrow> state" where
  "initial_state t =
     \<lparr>heap = (\<lambda>r. t), stdout = [], self_table = None, self_species = None,
      self_molweight = None, self_species_table = None, self_mu = None, self_Q = None,
      self_nu0 = None, self_Aul = None, self_gup = None, self_Eup = None\<rparr>"

section \<open>Properties of the unit conversion\<close>

lemma wavenumber_to_Kelvin_spec:
  "wavenumber_to_Kelvin K w = spec_wavenumberToKelvin K w"
  by (simp add: wavenumber_to_Kelvin_def spec_wavenumberToKelvin_def)

text \<open>
  With positive constants and a non-zero frequency the two Boltzmann factors differ, so
  the division in step 3 is by a non-zero number.
\<close>

lemma Smu2_denominator_nonzero:
  assumes "0 < h K" and "0 < k_B K" and "nu0 \<noteq> 0"
  shows "exp (- spec_Elow_K K ELow / 300) - exp (- spec_Eup_K K nu0 ELow / 300) \<noteq> 0"
proof -
  have "h K * nu0 * 1000000 / k_B K \<noteq> 0"
    using assms by simp
  then have "spec_Elow_K K ELow \<noteq> spec_Eup_K K nu0 ELow"
    by (simp add: spec_Eup_K_def)
  then show ?thesis
    by simp
qed

text \<open>
  C1. For every input \<open>(logInt300, nu0_MHz, gUp, ELow, Q300)\<close> the function
  \<^verbatim>\<open>logint_to_EinsteinA\<close> of the source returns exactly the value \<open>A\<close> of the
  four-step formula of the specification, with the literal constants \<open>2.40251e4\<close> and
  \<open>1.16395e-20\<close>.
\<close>

theorem logint_to_EinsteinA_is_spec_formula:
  "logint_to_EinsteinA K logInt300 nu0_MHz gUp ELow Q300 =
     spec_A K logInt300 nu0_MHz gUp ELow Q300"
  unfolding logint_to_EinsteinA_def spec_A_def spec_Smu2_def spec_Eup_K_def
    spec_Elow_K_def wavenumber_to_Kelvin_spec Let_def
  by (rule refl)

section \<open>Sequencing\<close>

lemma and_then_Inl [simp]: "and_then (Inl e) f = Inl e"
  by (simp add: and_then_def)

lemma and_then_Inr [simp]: "and_then (Inr x) f = f x"
  by (simp add: and_then_def)

lemma and_then_eq_Inr: "and_then m f = Inr y \<longleftrightarrow> (\<exists>x. m = Inr x \<and> f x = Inr y)"
  by (cases m) simp_all

lemma and_then_eq_Inl:
  "and_then m f = Inl e \<longleftrightarrow> (m = Inl e \<or> (\<exists>x. m = Inr x \<and> f x = Inl e))"
  by (cases m) simp_all

section \<open>Properties of the partition function\<close>








lemma PartitionFunction_call_scalar:
  "PartitionFunction_call pf (Scalar t) False = Inr (Float (pf_function pf t), [])"
  by (simp add: PartitionFunction_call_def)

lemma truth_value_two: "truth_value (b1 # b2 # bs) = Inl (ValueError ''The truth value of an array with more than one element is ambiguous'')"
  by (simp add: truth_value_def)

lemma verbose_array_raises:
  "\<exists>e. PartitionFunction_call pf (Array (t1 # t2 # ts)) True = Inl e"
  by (cases "pf_T pf = []") (simp_all add: PartitionFunction_call_def outside_samples_def nanmin_def truth_value_two)

lemma quiet_array_returns:
  "PartitionFunction_call pf (Array (t1 # t2 # ts)) False = Inr (NDArray (map (pf_function pf) (t1 # t2 # ts)), [])"
  by (simp add: PartitionFunction_call_def)

lemma scalar_verbose:
  assumes "pf_T pf \<noteq> []"
  shows "PartitionFunction_call pf (Scalar t) True =
      Inr (Float (pf_function pf t), if t < Min (set (pf_T pf)) \<or> t > Max (set (pf_T pf)) then [extrapolation_warning] else [])"
  using assms by (simp add: PartitionFunction_call_def outside_samples_def nanmin_def nanmax_def)

text \<open>
  For a number \<open>t\<close> and a partition function that was built, the verbose call returns
  the value of the quiet call, and prints the warning exactly when \<open>t\<close> lies outside the
  sampled temperatures.
\<close>

lemma scalar_verbose_same_value:
  assumes "PartitionFunction_init L sp Ts Qs db nt = Inr pf"
    and "\<forall>xs ys. length xs < 4 \<longrightarrow> (\<exists>e. interp1d_cubic L xs ys = Inl e)"
  shows "\<exists>printed. PartitionFunction_call pf (Scalar t) True = Inr (Float (pf_function pf t), printed) \<and>
       PartitionFunction_call pf (Scalar t) False = Inr (Float (pf_function pf t), []) \<and>
       (printed = [extrapolation_warning] \<longleftrightarrow> t < Min (set (pf_T pf)) \<or> Max (set (pf_T pf)) < t)"
proof -
  have T: "pf_T pf = Ts" and f: "get_function L Ts Qs = Inr (pf_function pf)"
    using assms(1) by (auto simp: PartitionFunction_init_def and_then_eq_Inr)
  have "Ts \<noteq> []"
  proof
    assume "Ts = []"
    with f have "interp1d_cubic L [] [v. Val v \<leftarrow> Qs] = Inr (pf_function pf)"
      by (simp add: get_function_def split: if_splits)
    with assms(2) show False
      by (metis Inl_Inr_False list.size(3) zero_less_numeral)
  qed
  then show ?thesis
    by (simp add: scalar_verbose T extrapolation_warning_def PartitionFunction_call_scalar)
qed

text \<open>
  C9. For every temperature \<open>T\<close> and every built partition function, evaluating with
  \<^verbatim>\<open>verbose\<close> set returns the value of evaluating without it. The source breaks this
  for an array of two or more temperatures, which \<^verbatim>\<open>__call__\<close> accepts
  (\<^verbatim>\<open>val.size == 1\<close> is tested for that reason): the quiet call returns the array of
  interpolated values and the verbose call raises ValueError, because
  \<^verbatim>\<open>T < np.nanmin(self.T) or T > np.nanmax(self.T)\<close> asks an array for its truth value.
  Evaluated here on the partition function built from the example samples.
\<close>

lemma example_pf_built:
  "\<exists>pf. PartitionFunction_init example_lib ''CO'' example_T example_Q None None = Inr pf"
  by (simp add: PartitionFunction_init_def get_function_def example_lib_def example_interp1d_def
      example_T_def example_Q_def isnan_def)

theorem verbose_call_on_array_raises:
  "\<exists>pf. PartitionFunction_init example_lib ''CO'' example_T example_Q None None = Inr pf \<and>
     PartitionFunction_call pf (Array [10, 20]) False =
       Inr (NDArray [pf_function pf 10, pf_function pf 20], []) \<and>
     PartitionFunction_call pf (Array [10, 20]) True =
       Inl (ValueError ''The truth value of an array with more than one element is ambiguous'')"
proof -
  from example_pf_built obtain pf where
    built: "PartitionFunction_init example_lib ''CO'' example_T example_Q None None = Inr pf"
    by blast
  then have T: "pf_T pf = example_T"
    by (auto simp: PartitionFunction_init_def and_then_eq_Inr)
  have quiet: "PartitionFunction_call pf (Array [10, 20]) False =
       Inr (NDArray [pf_function pf 10, pf_function pf 20], [])"
    by (simp add: PartitionFunction_call_def)
  have loud: "PartitionFunction_call pf (Array [10, 20]) True =
       Inl (ValueError ''The truth value of an array with more than one element is ambiguous'')"
    by (simp add: PartitionFunction_call_def outside_samples_def nanmin_def T example_T_def truth_value_def)
  from built quiet loud show ?thesis
    by blast
qed

section \<open>Properties of the table operations\<close>












section \<open>Properties of the normalizer steps\<close>






section \<open>What a successful normalization leaves in the table\<close>






lemma length_scaled [simp]: "length (scaled k xs) = length xs"
  by (simp add: scaled_def)





section \<open>The normalizers on the example data\<close>









section \<open>The Einstein A coefficient and the frequency of every row\<close>











section \<open>Species resolution\<close>

lemma index_of_None: "index_of xs y = None \<longleftrightarrow> y \<notin> set xs"
  by (induction xs) auto





lemma format_JPL_Inl:
  "format_JPL_steps L species nofreqerr pf (heap s r) = Inl e \<Longrightarrow>
   format_JPL L r species nofreqerr pf s = Inl e"
  by (simp add: format_JPL_def)

lemma format_CDMS_Inl:
  "format_CDMS_steps L use_cached nofreqerr (heap s r) = Inl e \<Longrightarrow>
   format_CDMS L r use_cached nofreqerr s = Inl e"
  by (simp add: format_CDMS_def)

text \<open>
  C6. A lookup key that is absent from the species master table is an error in both
  resolvers, and no species is returned: the by-tag resolver raises the ValueError of
  the source (``No entries found for species tag ...''), the by-composite-key resolver
  the ValueError of \<^verbatim>\<open>list.index\<close>. The last two conjuncts are the two normalizers
  with the key that they compute from the response.
\<close>

theorem absent_key_is_an_error:
  "(tag \<notin> set (map jpl_TAG (jpl_rows jst)) \<longrightarrow>
      JPL_species_of_tag jst tag =
        Inl (ValueError ''No entries found for species tag. Please specify species argument.''))
   \<and> (key \<notin> set (map cdms_tag (cdms_rows cst)) \<longrightarrow>
      CDMS_species_of_tag cst key = Inl (ValueError ''x is not in list''))
   \<and> (remove_masked_columns (heap s r) = Inr t1 \<and> JPL_tag t1 = Inr tag \<and>
       tag \<notin> set (map jpl_TAG (jpl_rows (JPL_get_species_table L))) \<longrightarrow>
      format_JPL L r None nofreqerr pf s =
        Inl (ValueError ''No entries found for species tag. Please specify species argument.''))
   \<and> (remove_masked_columns (heap s r) = Inr t1 \<and> CDMS_molweight t1 = Inr w \<and>
       CDMS_tag w t1 = Inr key \<and>
       key \<notin> set (map cdms_tag (cdms_rows (CDMS_get_species_table L use_cached))) \<longrightarrow>
      format_CDMS L r use_cached nofreqerr s = Inl (ValueError ''x is not in list''))"
proof (intro conjI impI)
  assume "tag \<notin> set (map jpl_TAG (jpl_rows jst))"
  then show "JPL_species_of_tag jst tag =
        Inl (ValueError ''No entries found for species tag. Please specify species argument.'')"
    by (simp add: JPL_species_of_tag_def index_of_None [THEN iffD2])
next
  assume "key \<notin> set (map cdms_tag (cdms_rows cst))"
  then show "CDMS_species_of_tag cst key = Inl (ValueError ''x is not in list'')"
    by (simp add: CDMS_species_of_tag_def index_of_None [THEN iffD2])
next
  assume a: "remove_masked_columns (heap s r) = Inr t1 \<and> JPL_tag t1 = Inr tag \<and>
       tag \<notin> set (map jpl_TAG (jpl_rows (JPL_get_species_table L)))"
  then have "JPL_species_of_tag (JPL_get_species_table L) tag =
        Inl (ValueError ''No entries found for species tag. Please specify species argument.'')"
    by (simp add: JPL_species_of_tag_def index_of_None [THEN iffD2])
  with a have "format_JPL_steps L None nofreqerr pf (heap s r) =
        Inl (ValueError ''No entries found for species tag. Please specify species argument.'')"
    by (simp add: format_JPL_steps_def JPL_species_and_pf_def JPL_resolve_def)
  then show "format_JPL L r None nofreqerr pf s =
        Inl (ValueError ''No entries found for species tag. Please specify species argument.'')"
    by (rule format_JPL_Inl)
next
  assume a: "remove_masked_columns (heap s r) = Inr t1 \<and> CDMS_molweight t1 = Inr w \<and>
       CDMS_tag w t1 = Inr key \<and>
       key \<notin> set (map cdms_tag (cdms_rows (CDMS_get_species_table L use_cached)))"
  then have "CDMS_species_of_tag (CDMS_get_species_table L use_cached) key =
        Inl (ValueError ''x is not in list'')"
    by (simp add: CDMS_species_of_tag_def index_of_None [THEN iffD2])
  with a have "format_CDMS_steps L use_cached nofreqerr (heap s r) = Inl (ValueError ''x is not in list'')"
    by (simp add: format_CDMS_steps_def CDMS_species_and_pf_def)
  then show "format_CDMS L r use_cached nofreqerr s = Inl (ValueError ''x is not in list'')"
    by (rule format_CDMS_Inl)
qed


lemma example_JPL_unmasked: "remove_masked_columns example_JPL_response = Inr example_JPL_response"
  by (simp add: remove_masked_columns_def has_mask_def example_JPL_response_def)

lemma example_CDMS_unmasked: "remove_masked_columns example_CDMS_response = Inr example_CDMS_response"
  by (simp add: remove_masked_columns_def has_mask_def example_CDMS_response_def)

lemma example_JPL_tag: "JPL_tag example_JPL_response = Inr 28001"
  by (simp add: JPL_tag_def getitem_def column_def example_JPL_response_def unique_first_def py_int_def)

lemma example_CDMS_key_columns:
  "column example_CDMS_response ''MOLWT'' = Some (NumCol [Some 28, Some 28])"
  "column example_CDMS_response ''TAG'' = Some (NumCol [Some (- 503), Some (- 503)])"
  "unique_first (NumCol [Some 28, Some 28]) = Inr 28"
  "unique_first (NumCol [Some (- 503), Some (- 503)]) = Inr (- 503)"
  by (simp_all add: column_def example_CDMS_response_def unique_first_def)

lemma py_int_numeral [simp]: "py_int (numeral n) = numeral n" "py_int (- numeral n) = - numeral n"
  by (simp_all add: py_int_def)


theorem absent_key_is_an_error_witness:
  "JPL_species_of_tag (JPL_get_species_table sparse_lib) 28001 =
     Inl (ValueError ''No entries found for species tag. Please specify species argument.'') \<and>
   CDMS_species_of_tag (CDMS_get_species_table sparse_lib False) 28503 =
     Inl (ValueError ''x is not in list'') \<and>
   format_JPL sparse_lib 0 None False None (initial_state example_JPL_response) =
     Inl (ValueError ''No entries found for species tag. Please specify species argument.'') \<and>
   format_CDMS sparse_lib 0 False False (initial_state example_CDMS_response) =
     Inl (ValueError ''x is not in list'')"
proof -
  have j: "(28001::int) \<notin> set (map jpl_TAG (jpl_rows (JPL_get_species_table sparse_lib)))"
    by (simp add: sparse_lib_def example_lib_def)
  have k: "(28503::int) \<notin> set (map cdms_tag (cdms_rows (CDMS_get_species_table sparse_lib False)))"
    by (simp add: sparse_lib_def example_lib_def)
  have hj: "remove_masked_columns (heap (initial_state example_JPL_response) 0) = Inr example_JPL_response \<and>
      JPL_tag example_JPL_response = Inr 28001 \<and>
      28001 \<notin> set (map jpl_TAG (jpl_rows (JPL_get_species_table sparse_lib)))"
    using j by (simp add: initial_state_def example_JPL_unmasked example_JPL_tag)
  have hk: "remove_masked_columns (heap (initial_state example_CDMS_response) 0) = Inr example_CDMS_response \<and>
      CDMS_molweight example_CDMS_response = Inr 28 \<and>
      CDMS_tag 28 example_CDMS_response = Inr 28503 \<and>
      28503 \<notin> set (map cdms_tag (cdms_rows (CDMS_get_species_table sparse_lib False)))"
    using k by (simp add: initial_state_def example_CDMS_unmasked CDMS_molweight_def CDMS_tag_def
        getitem_def example_CDMS_key_columns)
  note a = absent_key_is_an_error [THEN conjunct1, rule_format, OF j]
  note b = absent_key_is_an_error [THEN conjunct2, THEN conjunct1, rule_format, OF k]
  note c = absent_key_is_an_error [THEN conjunct2, THEN conjunct2, THEN conjunct1, rule_format, OF hj]
  note d = absent_key_is_an_error [THEN conjunct2, THEN conjunct2, THEN conjunct2, rule_format, OF hk]
  from a b c d show ?thesis
    by (intro conjI)
qed

section \<open>Empty results and missing partition functions\<close>

lemma example_CDMS_file_names: "colnames example_CDMS_file_response = CDMS_file_names"
  by (simp add: colnames_def example_CDMS_file_response_def CDMS_file_names_def)






end
